theory Spec2Isabelle
  imports Complex_Main "HOL-Library.AList"
begin

section \<open>Python values used by \<^verbatim>\<open>doatools/model/arrays.py\<close>\<close>

text \<open>
  Every \<^verbatim>\<open>raise ValueError(msg)\<close> of the module is the value \<open>ValueError msg\<close>, with the
  message of the raise site. The other constructors are the exceptions that the Python
  runtime and numpy raise themselves: \<open>TypeError\<close> (\<^verbatim>\<open>len\<close> or indexing of an object that
  supports neither), \<open>IndexError\<close> (a tuple or shape index out of range) and \<open>KeyError\<close>
  (a missing dict key).
\<close>

datatype error = ValueError string | TypeError | IndexError | KeyError

text \<open>
  A numpy array is its shape and its elements in row-major order. The element type \<open>'e\<close>
  stands for the array's numbers (Python floats are idealised as the elements of a ring).
  \<open>wf_ndarray\<close> says that the buffer has as many elements as the shape announces.
\<close>

record 'e ndarray =
  shape :: "nat list"
  data :: "'e list"


definition ndarray_ndim :: "'e ndarray \<Rightarrow> nat" where
  "ndarray_ndim a = length (shape a)"

text \<open>\<^verbatim>\<open>a.shape[i]\<close>: indexing the shape tuple raises IndexError out of range.\<close>

definition shape_at :: "'e ndarray \<Rightarrow> nat \<Rightarrow> error + nat" where
  "shape_at a i = (if i < length (shape a) then Inr (shape a ! i) else Inl IndexError)"

text \<open>\<^verbatim>\<open>a.reshape((-1, 1))\<close>: one column holding every element.\<close>

definition reshape_column :: "'e ndarray \<Rightarrow> 'e ndarray" where
  "reshape_column a = \<lparr>shape = [prod_list (shape a), 1], data = data a\<rparr>"


text \<open>\<^verbatim>\<open>np.array(xs)\<close> of a flat list, and \<^verbatim>\<open>np.array(xs)[:, np.newaxis]\<close>.\<close>

definition array1 :: "'e list \<Rightarrow> 'e ndarray" where
  "array1 xs = \<lparr>shape = [length xs], data = xs\<rparr>"

definition newaxis_column :: "'e ndarray \<Rightarrow> 'e ndarray" where
  "newaxis_column a = \<lparr>shape = shape a @ [1], data = data a\<rparr>"




definition times_scalar :: "int ndarray \<Rightarrow> 'e::ring_1 \<Rightarrow> 'e ndarray" where
  "times_scalar a c = \<lparr>shape = shape a, data = map (\<lambda>x. of_int x * c) (data a)\<rparr>"

subsection \<open>Perturbation dictionaries\<close>

text \<open>
  The value stored under a perturbation key is documented as a two-element tuple
  \<^verbatim>\<open>(parameters, known)\<close>. Python does not enforce that, and the validation looks at two
  things only: whether the value is a tuple, and its \<^verbatim>\<open>len\<close>. So a value is a tuple, another
  sized object (a list, say) or an object without \<^verbatim>\<open>len\<close>; the elements of a sized value
  are typed by position as the docstring types them: element 0 is the parameter array,
  element 1 the known-flag, and further elements are only counted.
\<close>

datatype 'a items = Items0 | Items1 'a | Items2 'a bool nat

datatype 'a pvalue = PTuple "'a items" | PSized "'a items" | PUnsized

fun items_len :: "'a items \<Rightarrow> nat" where
  "items_len Items0 = 0"
| "items_len (Items1 p) = 1"
| "items_len (Items2 p b extra) = 2 + extra"

fun isinstance_tuple :: "'a pvalue \<Rightarrow> bool" where
  "isinstance_tuple (PTuple xs) = True"
| "isinstance_tuple (PSized xs) = False"
| "isinstance_tuple PUnsized = False"

fun py_len :: "'a pvalue \<Rightarrow> error + nat" where
  "py_len (PTuple xs) = Inr (items_len xs)"
| "py_len (PSized xs) = Inr (items_len xs)"
| "py_len PUnsized = Inl TypeError"

fun items_get0 :: "'a items \<Rightarrow> error + 'a" where
  "items_get0 Items0 = Inl IndexError"
| "items_get0 (Items1 p) = Inr p"
| "items_get0 (Items2 p b extra) = Inr p"

fun items_get1 :: "'a items \<Rightarrow> error + bool" where
  "items_get1 Items0 = Inl IndexError"
| "items_get1 (Items1 p) = Inl IndexError"
| "items_get1 (Items2 p b extra) = Inr b"

text \<open>\<^verbatim>\<open>v[0]\<close> and \<^verbatim>\<open>v[1]\<close>.\<close>

fun getitem0 :: "'a pvalue \<Rightarrow> error + 'a" where
  "getitem0 (PTuple xs) = items_get0 xs"
| "getitem0 (PSized xs) = items_get0 xs"
| "getitem0 PUnsized = Inl TypeError"

fun getitem1 :: "'a pvalue \<Rightarrow> error + bool" where
  "getitem1 (PTuple xs) = items_get1 xs"
| "getitem1 (PSized xs) = items_get1 xs"
| "getitem1 PUnsized = Inl TypeError"

text \<open>
  A dict is the list of its items in insertion order (the order in which \<^verbatim>\<open>.items()\<close>
  yields them); its keys are distinct. \<^verbatim>\<open>k in d\<close>, \<^verbatim>\<open>d[k]\<close> and the merge
  \<^verbatim>\<open>{**a, **b}\<close>, which inserts the items of \<^verbatim>\<open>b\<close> one by one into a copy of \<^verbatim>\<open>a\<close>.
\<close>

type_synonym 'a pdict = "(string \<times> 'a pvalue) list"

definition py_in :: "string \<Rightarrow> 'a pdict \<Rightarrow> bool" where
  "py_in k d = (map_of d k \<noteq> None)"

definition dict_get :: "'a pdict \<Rightarrow> string \<Rightarrow> error + 'a pvalue" where
  "dict_get d k = (case map_of d k of None \<Rightarrow> Inl KeyError | Some v \<Rightarrow> Inr v)"

definition dict_merge :: "'a pdict \<Rightarrow> 'a pdict \<Rightarrow> 'a pdict" where
  "dict_merge a b = fold (\<lambda>(k, v). AList.update k v) b a"

definition PERTURBATION_TYPES :: "string list" where
  "PERTURBATION_TYPES =
     [''location_errors'', ''gain_errors'', ''phase_errors'', ''mutual_coupling'']"

section \<open>ArrayDesign\<close>

text \<open>
  The attributes of an \<^verbatim>\<open>ArrayDesign\<close> object: \<^verbatim>\<open>_locations\<close>, \<^verbatim>\<open>_name\<close>,
  \<^verbatim>\<open>_perturbations\<close>, and \<^verbatim>\<open>_perturbation\<close>, an attribute that only
  \<^verbatim>\<open>get_perturbation_free_copy\<close> assigns (absent, \<open>None\<close>, until then). Subclasses extend
  the record.
\<close>

record 'e array_design =
  d_locations :: "'e ndarray"
  d_name :: string
  d_perturbations :: "'e ndarray pdict"
  d_perturbation :: "'e ndarray pdict option"

text \<open>\<^verbatim>\<open>ArrayDesign._validate_perturbations\<close>: the loop over \<^verbatim>\<open>perturbations.items()\<close>.\<close>

fun validate_perturbations :: "'a pdict \<Rightarrow> error + unit" where
  "validate_perturbations [] = Inr ()"
| "validate_perturbations ((k, v) # rest) =
     (if k \<notin> set PERTURBATION_TYPES
      then Inl (ValueError (''Unsupported perturbation type \"'' @ k @ ''\".''))
      else if \<not> isinstance_tuple v
      then (case py_len v of
              Inl e \<Rightarrow> Inl e
            | Inr n \<Rightarrow>
                if n \<noteq> 2
                then Inl (ValueError
                  ''Perturbation details should be specified by a two-element tuple.'')
                else validate_perturbations rest)
      else validate_perturbations rest)"

text \<open>
  \<^verbatim>\<open>ArrayDesign.__init__\<close>, for \<^verbatim>\<open>locations\<close> that is already an ndarray. The result is
  the attribute record of the object under construction, or the exception raised.
\<close>

definition ArrayDesign ::
  "'e ndarray \<Rightarrow> string \<Rightarrow> 'e ndarray pdict \<Rightarrow> error + 'e array_design" where
  "ArrayDesign locations name perturbations =
     (if ndarray_ndim locations > 2
      then Inl (ValueError ''Expecting an 1D vector or a 2D matrix.'')
      else
        case (if ndarray_ndim locations = 1 then Inr (reshape_column locations)
              else case shape_at locations 1 of
                     Inl e \<Rightarrow> Inl e
                   | Inr c \<Rightarrow>
                       if c > 3 then Inl (ValueError ''Array can only be 1D, 2D or 3D.'')
                       else Inr locations) of
          Inl e \<Rightarrow> Inl e
        | Inr locations' \<Rightarrow>
            (case validate_perturbations perturbations of
               Inl e \<Rightarrow> Inl e
             | Inr u \<Rightarrow>
                 Inr \<lparr>d_locations = locations', d_name = name,
                      d_perturbations = perturbations, d_perturbation = None\<rparr>))"

text \<open>
  The properties \<^verbatim>\<open>size\<close>, \<^verbatim>\<open>element_locations\<close>, \<^verbatim>\<open>is_perturbed\<close> and \<^verbatim>\<open>ndim\<close>.
  A copy of an array is the array itself, as a value. The properties \<^verbatim>\<open>name\<close> and
  \<^verbatim>\<open>perturbations\<close> return the attributes \<open>d_name\<close> and (as a deep copy)
  \<open>d_perturbations\<close>.
\<close>

definition size' :: "('e, 'm) array_design_scheme \<Rightarrow> error + nat" where
  "size' self = shape_at (d_locations self) 0"

definition element_locations :: "('e, 'm) array_design_scheme \<Rightarrow> 'e ndarray" where
  "element_locations self = d_locations self"

definition is_perturbed :: "('e, 'm) array_design_scheme \<Rightarrow> bool" where
  "is_perturbed self = (length (d_perturbations self) > 0)"

definition ndim :: "('e, 'm) array_design_scheme \<Rightarrow> error + nat" where
  "ndim self =
     (if ndarray_ndim (d_locations self) = 1 then Inr 1
      else shape_at (d_locations self) 1)"

subsection \<open>Perturbed locations\<close>

text \<open>Sequencing of calls that may raise: the first exception ends the computation.\<close>

definition bind_err :: "error + 'a \<Rightarrow> ('a \<Rightarrow> error + 'b) \<Rightarrow> error + 'b" where
  "bind_err r f = (case r of Inl e \<Rightarrow> Inl e | Inr x \<Rightarrow> f x)"

text \<open>
  numpy's in-place \<^verbatim>\<open>a[:, :k] += b\<close>. The slice has the shape of \<^verbatim>\<open>a\<close> with its second
  axis cut to \<open>k\<close>; \<^verbatim>\<open>b\<close> must broadcast to exactly that shape (axes aligned from the right,
  each axis of \<^verbatim>\<open>b\<close> of size 1 or of the slice's size), else numpy raises ValueError.
  \<open>unravel\<close> and \<open>ravel\<close> convert between a row-major position and a multi-index.
\<close>

fun unravel :: "nat list \<Rightarrow> nat \<Rightarrow> nat list" where
  "unravel [] n = []"
| "unravel (s # ss) n = (n div prod_list ss) # unravel ss (n mod prod_list ss)"

fun ravel :: "nat list \<Rightarrow> nat list \<Rightarrow> nat" where
  "ravel (s # ss) (j # js) = j * prod_list ss + ravel ss js"
| "ravel ss js = 0"

definition broadcastable :: "nat list \<Rightarrow> nat list \<Rightarrow> bool" where
  "broadcastable bs ss =
     (length bs \<le> length ss \<and>
      list_all2 (\<lambda>b s. b = 1 \<or> b = s) bs (drop (length ss - length bs) ss))"

definition broadcast_index :: "nat list \<Rightarrow> nat list \<Rightarrow> nat list" where
  "broadcast_index bs idx =
     map2 (\<lambda>b j. if b = 1 then 0 else j) bs (drop (length idx - length bs) idx)"

definition iadd_columns :: "'e::plus ndarray \<Rightarrow> nat \<Rightarrow> 'e ndarray \<Rightarrow> error + 'e ndarray" where
  "iadd_columns a k b =
     (if length (shape a) < 2 then Inl IndexError
      else if \<not> broadcastable (shape b) ((shape a)[1 := min k (shape a ! 1)])
      then Inl (ValueError ''operands could not be broadcast together'')
      else Inr (a\<lparr>data :=
             map (\<lambda>n. let idx = unravel (shape a) n
                      in if idx ! 1 < k
                         then data a ! n + data b ! ravel (shape b) (broadcast_index (shape b) idx)
                         else data a ! n)
                 [0..<length (data a)]\<rparr>))"

text \<open>\<^verbatim>\<open>ArrayDesign._compute_actual_locations\<close>.\<close>

definition compute_actual_locations ::
  "('e::plus, 'm) array_design_scheme \<Rightarrow> 'e ndarray \<Rightarrow> error + 'e ndarray" where
  "compute_actual_locations self location_errors =
     bind_err (ndim self) (\<lambda>actual_ndim.
     bind_err (shape_at location_errors 1) (\<lambda>loc_err_dim.
       if loc_err_dim \<le> actual_ndim
       then iadd_columns (d_locations self) loc_err_dim location_errors
       else iadd_columns location_errors actual_ndim (d_locations self)))"

text \<open>The properties \<^verbatim>\<open>actual_element_locations\<close> and \<^verbatim>\<open>actual_ndim\<close>.\<close>

definition actual_element_locations ::
  "('e::plus, 'm) array_design_scheme \<Rightarrow> error + 'e ndarray" where
  "actual_element_locations self =
     (if py_in ''location_errors'' (d_perturbations self)
      then bind_err (dict_get (d_perturbations self) ''location_errors'') (\<lambda>v.
           bind_err (getitem0 v) (\<lambda>location_errors.
             compute_actual_locations self location_errors))
      else Inr (element_locations self))"

definition actual_ndim :: "('e, 'm) array_design_scheme \<Rightarrow> error + nat" where
  "actual_ndim self =
     (if py_in ''location_errors'' (d_perturbations self)
      then bind_err (dict_get (d_perturbations self) ''location_errors'') (\<lambda>v.
           bind_err (getitem0 v) (\<lambda>location_errors.
           bind_err (shape_at location_errors 1) (\<lambda>c.
           bind_err (ndim self) (\<lambda>d. Inr (max c d)))))
      else ndim self)"

section \<open>Grid-based designs and the geometry catalog\<close>

text \<open>
  \<^verbatim>\<open>str(n)\<close> of a Python int, as \<^verbatim>\<open>format\<close> prints it, and \<^verbatim>\<open>s.lower()\<close> on ASCII
  letters.
\<close>

definition digit_char :: "nat \<Rightarrow> char" where
  "digit_char n = ''0123456789'' ! n"

fun str_nat :: "nat \<Rightarrow> string" where
  "str_nat n = (if n < 10 then [digit_char n] else str_nat (n div 10) @ [digit_char (n mod 10)])"

declare str_nat.simps [simp del]

definition str_int :: "int \<Rightarrow> string" where
  "str_int i = (if i < 0 then CHR ''-'' # str_nat (nat (- i)) else str_nat (nat i))"



text \<open>
  \<^verbatim>\<open>GridBasedArrayDesign.__init__\<close>; \<^verbatim>\<open>**kwargs\<close> carries the \<^verbatim>\<open>perturbations\<close> argument
  of \<^verbatim>\<open>ArrayDesign\<close> (an empty dict when omitted). The property \<^verbatim>\<open>d0\<close> returns the
  attribute \<open>d_d0\<close>.
\<close>

record 'e grid_design = "'e array_design" +
  d_element_indices :: "int ndarray"
  d_d0 :: 'e

definition GridBasedArrayDesign ::
  "int ndarray \<Rightarrow> 'e::ring_1 \<Rightarrow> string \<Rightarrow> 'e ndarray pdict \<Rightarrow> error + 'e grid_design" where
  "GridBasedArrayDesign indices d0 name perturbations =
     bind_err (ArrayDesign (times_scalar indices d0) name perturbations) (\<lambda>base.
       Inr \<lparr>d_locations = d_locations base, d_name = d_name base,
            d_perturbations = d_perturbations base, d_perturbation = d_perturbation base,
            d_element_indices = indices, d_d0 = d0\<rparr>)"

definition element_indices :: "('e, 'm) grid_design_scheme \<Rightarrow> int ndarray" where
  "element_indices self = d_element_indices self"



text \<open>The table \<^verbatim>\<open>_MRLA_PRESETS\<close> and \<^verbatim>\<open>MinimumRedundancyLinearArray.__init__\<close>.\<close>

definition MRLA_PRESETS :: "int list list" where
  "MRLA_PRESETS = [
    [0],
    [0, 1],
    [0, 1, 3],
    [0, 1, 4, 6],
    [0, 1, 4, 7, 9],
    [0, 1, 6, 9, 11, 13],
    [0, 1, 8, 11, 13, 15, 17],
    [0, 1, 4, 10, 16, 18, 21, 23],
    [0, 1, 4, 10, 16, 22, 24, 27, 29],
    [0, 1, 4, 10, 16, 22, 28, 30, 33, 35],
    [0, 1, 6, 14, 22, 30, 32, 34, 37, 39, 41],
    [0, 1, 6, 14, 22, 30, 38, 40, 42, 45, 47, 49],
    [0, 1, 6, 14, 22, 30, 38, 46, 48, 50, 53, 55, 57],
    [0, 1, 6, 14, 22, 30, 38, 46, 54, 56, 58, 61, 63, 65],
    [0, 1, 6, 14, 22, 30, 38, 46, 54, 62, 64, 66, 69, 71, 73],
    [0, 1, 8, 18, 28, 38, 48, 58, 68, 70, 72, 74, 77, 79, 81, 83],
    [0, 1, 8, 18, 28, 38, 48, 58, 68, 78, 80, 82, 84, 87, 89, 91, 93],
    [0, 1, 8, 18, 28, 38, 48, 58, 68, 78, 88, 90, 92, 94, 97, 99, 101, 103],
    [0, 1, 8, 18, 28, 38, 48, 58, 68, 78, 88, 98, 100, 102, 104, 107, 109, 111, 113],
    [0, 1, 10, 22, 34, 46, 58, 70, 82, 94, 106, 108, 110, 112, 114, 117, 119, 121, 123, 125]
  ]"

definition MinimumRedundancyLinearArray ::
  "int \<Rightarrow> 'e::ring_1 \<Rightarrow> string option \<Rightarrow> 'e ndarray pdict \<Rightarrow> error + 'e grid_design" where
  "MinimumRedundancyLinearArray n d0 name perturbations =
     (if n < 1 \<or> n \<ge> int (length MRLA_PRESETS)
      then Inl (ValueError ''The MRLA presets only support up to 20 elements.'')
      else GridBasedArrayDesign
             (newaxis_column (array1 (MRLA_PRESETS ! nat (n - 1)))) d0
             (case name of None \<Rightarrow> ''MRLA '' @ str_int n | Some s \<Rightarrow> s)
             perturbations)"

section \<open>Copies of a design\<close>

text \<open>
  \<^verbatim>\<open>get_perturbation_free_copy\<close> and \<^verbatim>\<open>get_perturbed_copy\<close> make a shallow copy of the
  receiver and then assign attributes of the copy. To tell the receiver from the copy,
  objects live in a store: the list of the attribute records allocated so far, an object's
  address being its position. \<^verbatim>\<open>copy.copy(self)\<close> allocates a new object with the
  attributes of \<^verbatim>\<open>self\<close>. Dicts and arrays are never modified in place by this module, so
  they are values.
\<close>

type_synonym ('e, 'm) heap = "('e, 'm) array_design_scheme list"

definition get_perturbation_free_copy ::
  "('e, 'm) heap \<Rightarrow> nat \<Rightarrow> string option \<Rightarrow> nat \<times> ('e, 'm) heap" where
  "get_perturbation_free_copy h self new_name =
     (let new_name' = (case new_name of None \<Rightarrow> d_name (h ! self) | Some s \<Rightarrow> s);
          design = length h;
          h1 = h @ [h ! self];
          h2 = h1[design := (h1 ! design)\<lparr>d_perturbation := Some []\<rparr>];
          h3 = h2[design := (h2 ! design)\<lparr>d_name := new_name'\<rparr>]
      in (design, h3))"

definition get_perturbed_copy ::
  "('e, 'm) heap \<Rightarrow> nat \<Rightarrow> 'e ndarray pdict \<Rightarrow> string option
     \<Rightarrow> (error + nat) \<times> ('e, 'm) heap" where
  "get_perturbed_copy h self perturbations new_name =
     (let (design, h1) = get_perturbation_free_copy h self new_name;
          new_perturbations = dict_merge (d_perturbations (h1 ! design)) perturbations
      in case validate_perturbations new_perturbations of
           Inl e \<Rightarrow> (Inl e, h1)
         | Inr u \<Rightarrow>
             (Inr design,
              h1[design := (h1 ! design)\<lparr>d_perturbations := new_perturbations\<rparr>]))"

section \<open>The steering matrix\<close>

text \<open>
  The numpy operations on complex matrices that \<^verbatim>\<open>steering_matrix\<close> calls are parameters
  of the model, over a type \<open>'c\<close> of complex arrays:
  \<open>exp_1j x\<close> is \<^verbatim>\<open>np.exp(1j * x)\<close>, \<open>times_1j x\<close> is \<^verbatim>\<open>1j * x\<close>, \<open>one_plus x\<close> is
  \<^verbatim>\<open>1. + x\<close>, \<open>multiply x y\<close> is the broadcasting product \<^verbatim>\<open>x * y\<close> and \<open>matmul x y\<close> is
  \<^verbatim>\<open>x @ y\<close>. So is the sources collaborator: \<open>phase_delay_matrix\<close> returns the phase
  delays and the list of derivative terms (\<^verbatim>\<open>T[0]\<close> and \<^verbatim>\<open>T[1:]\<close>), the list being read
  only when derivatives are requested.
\<close>

record ('e, 'c) numpy =
  exp_1j :: "'e ndarray \<Rightarrow> 'c"
  times_1j :: "'e ndarray \<Rightarrow> 'c"
  one_plus :: "'e ndarray \<Rightarrow> 'c"
  multiply :: "'c \<Rightarrow> 'c \<Rightarrow> 'c"
  matmul :: "'e ndarray \<Rightarrow> 'c \<Rightarrow> 'c"

text \<open>The value returned: \<^verbatim>\<open>A\<close>, or the tuple \<^verbatim>\<open>(A,) + tuple(DA)\<close>.\<close>

datatype 'c steering = Matrix 'c | WithDerivatives "'c list"

text \<open>The comprehension \<^verbatim>\<open>{k: v for k, v in self._perturbations.items() if v[1]}\<close>.\<close>

fun known_only :: "'a pdict \<Rightarrow> error + 'a pdict" where
  "known_only [] = Inr []"
| "known_only ((k, v) # rest) =
     bind_err (getitem1 v) (\<lambda>flag.
     bind_err (known_only rest) (\<lambda>kept.
       Inr (if flag then (k, v) # kept else kept)))"

text \<open>The filter at the head of \<^verbatim>\<open>steering_matrix\<close> (the \<^verbatim>\<open>if\<close> chain on \<^verbatim>\<open>perturbations\<close>).\<close>

definition filter_perturbations :: "'a pdict \<Rightarrow> string \<Rightarrow> error + 'a pdict" where
  "filter_perturbations stored perturbations =
     (if perturbations = ''all'' then Inr stored
      else if perturbations = ''known'' then known_only stored
      else if perturbations = ''none'' then Inr []
      else Inl (ValueError ''Perturbation can only be \"all\", \"known\", or \"none\".''))"

definition steering_matrix ::
  "('e::plus, 'c) numpy \<Rightarrow> ('e ndarray \<Rightarrow> 'w \<Rightarrow> bool \<Rightarrow> 'e ndarray \<times> 'e ndarray list)
     \<Rightarrow> ('e, 'm) array_design_scheme \<Rightarrow> 'w \<Rightarrow> bool \<Rightarrow> string \<Rightarrow> error + 'c steering" where
  "steering_matrix np phase_delay_matrix self wavelength compute_derivatives perturbations =
     bind_err (filter_perturbations (d_perturbations self) perturbations) (\<lambda>perturb_dict.
     bind_err
       (if py_in ''location_errors'' perturb_dict
        then bind_err (dict_get perturb_dict ''location_errors'') (\<lambda>v.
             bind_err (getitem0 v) (\<lambda>location_errors.
               compute_actual_locations self location_errors))
        else Inr (d_locations self)) (\<lambda>actual_locations.
     let T = phase_delay_matrix actual_locations wavelength compute_derivatives;
         A = exp_1j np (fst T);
         DA = (if compute_derivatives
               then map (\<lambda>X. multiply np A (times_1j np X)) (snd T) else [])
     in
     bind_err
       (if py_in ''gain_errors'' perturb_dict
        then bind_err (dict_get perturb_dict ''gain_errors'') (\<lambda>v.
             bind_err (getitem0 v) (\<lambda>gain_params.
               let gain_coeff = one_plus np gain_params
               in Inr (multiply np gain_coeff A,
                       if compute_derivatives then map (multiply np gain_coeff) DA else DA)))
        else Inr (A, DA)) (\<lambda>(A, DA).
     bind_err
       (if py_in ''phase_errors'' perturb_dict
        then bind_err (dict_get perturb_dict ''phase_errors'') (\<lambda>v.
             bind_err (getitem0 v) (\<lambda>phase_params.
               let phase_coeff = exp_1j np phase_params
               in Inr (multiply np phase_coeff A,
                       if compute_derivatives then map (multiply np phase_coeff) DA else DA)))
        else Inr (A, DA)) (\<lambda>(A, DA).
     bind_err
       (if py_in ''mutual_coupling'' perturb_dict
        then bind_err (dict_get perturb_dict ''mutual_coupling'') (\<lambda>v.
             bind_err (getitem0 v) (\<lambda>coupling.
               Inr (matmul np coupling A,
                    if compute_derivatives then map (matmul np coupling) DA else DA)))
        else Inr (A, DA)) (\<lambda>(A, DA).
     Inr (if compute_derivatives then WithDerivatives (A # DA) else Matrix A))))))"

section \<open>Notions used to state the properties\<close>

text \<open>
  An entry has a known-flag when \<^verbatim>\<open>v[1]\<close> does not raise; the flag is set when \<^verbatim>\<open>v[1]\<close> is
  \<^verbatim>\<open>True\<close>. \<open>entry_params d k\<close> is what \<^verbatim>\<open>d[k][0]\<close> gives when the key is present.
\<close>

definition has_flag :: "'a pvalue \<Rightarrow> bool" where
  "has_flag v = (case getitem1 v of Inl e \<Rightarrow> False | Inr b \<Rightarrow> True)"

definition known_flag :: "'a pvalue \<Rightarrow> bool" where
  "known_flag v = (getitem1 v = Inr True)"

definition entry_params :: "'a pdict \<Rightarrow> string \<Rightarrow> (error + 'a) option" where
  "entry_params pd k = map_option getitem0 (map_of pd k)"

text \<open>
  The three perturbation effects as the specification words them, each the identity when
  its entry is absent: scaling by \<open>gain_coeff = 1 + gain_params\<close>, scaling by
  \<open>phase_coeff = exp(i * phase_params)\<close>, left-multiplication by the coupling matrix.
\<close>

definition apply_gain :: "('e, 'c) numpy \<Rightarrow> 'e ndarray option \<Rightarrow> 'c \<Rightarrow> 'c" where
  "apply_gain np g X = (case g of None \<Rightarrow> X | Some p \<Rightarrow> multiply np (one_plus np p) X)"

definition apply_phase :: "('e, 'c) numpy \<Rightarrow> 'e ndarray option \<Rightarrow> 'c \<Rightarrow> 'c" where
  "apply_phase np ph X = (case ph of None \<Rightarrow> X | Some p \<Rightarrow> multiply np (exp_1j np p) X)"

definition apply_coupling :: "('e, 'c) numpy \<Rightarrow> 'e ndarray option \<Rightarrow> 'c \<Rightarrow> 'c" where
  "apply_coupling np c X = (case c of None \<Rightarrow> X | Some p \<Rightarrow> matmul np p X)"

subsection \<open>Concrete designs\<close>

text \<open>
  An interpretation of the numpy operations that builds the expression computed, so that
  the order of the operations can be read off the result.
\<close>

datatype expr =
    Exp1j "real ndarray" | Times1j "real ndarray" | OnePlus "real ndarray"
  | Mul expr expr | MatMul "real ndarray" expr

definition symbolic_numpy :: "(real, expr) numpy" where
  "symbolic_numpy =
     \<lparr>exp_1j = Exp1j, times_1j = Times1j, one_plus = OnePlus, multiply = Mul,
      matmul = MatMul\<rparr>"

definition ex_sources :: "real ndarray \<Rightarrow> unit \<Rightarrow> bool \<Rightarrow> real ndarray \<times> real ndarray list" where
  "ex_sources locations wavelength compute_derivatives = (locations, [locations])"

definition ex_locations :: "real ndarray" where
  "ex_locations = \<lparr>shape = [2, 1], data = [0, 1]\<rparr>"

definition ex_gain :: "real ndarray" where
  "ex_gain = \<lparr>shape = [2, 1], data = [1 / 10, - 1 / 10]\<rparr>"

definition ex_phase :: "real ndarray" where
  "ex_phase = \<lparr>shape = [2, 1], data = [0, 1]\<rparr>"

definition ex_coupling :: "real ndarray" where
  "ex_coupling = \<lparr>shape = [2, 2], data = [1, 0, 0, 1]\<rparr>"

definition ex_location_errors :: "real ndarray" where
  "ex_location_errors = \<lparr>shape = [2, 2], data = [1, 2, 3, 4]\<rparr>"

definition ex_design :: "real array_design" where
  "ex_design =
     \<lparr>d_locations = ex_locations, d_name = ''example'',
      d_perturbations =
        [(''gain_errors'', PTuple (Items2 ex_gain True 0)),
         (''phase_errors'', PTuple (Items2 ex_phase False 0)),
         (''mutual_coupling'', PTuple (Items2 ex_coupling True 0))],
      d_perturbation = None\<rparr>"


text \<open>A dict that overrides the phase errors and adds location errors; a dict with an
  unknown kind; a dict whose value is a three-element tuple.\<close>

definition ex_update :: "real ndarray pdict" where
  "ex_update =
     [(''phase_errors'', PTuple (Items2 ex_gain True 0)),
      (''location_errors'', PTuple (Items2 ex_location_errors False 0))]"

definition ex_unknown_kind :: "real ndarray pdict" where
  "ex_unknown_kind = [(''drift'', PTuple (Items2 ex_gain True 0))]"

definition ex_three_tuple :: "real ndarray pdict" where
  "ex_three_tuple = [(''gain_errors'', PTuple (Items2 ex_gain True 1))]"

definition ex_zero_columns :: "real ndarray" where
  "ex_zero_columns = \<lparr>shape = [2, 0], data = []\<rparr>"

section \<open>Auxiliary facts\<close>

lemma bind_err_simps:
  "bind_err (Inr x) f = f x" "bind_err (Inl e) f = Inl e"
  by (simp_all add: bind_err_def)





lemma dict_merge_map_of:
  "distinct (map fst b) \<Longrightarrow> map_of (dict_merge a b) = map_of a ++ map_of b"
proof (induction b arbitrary: a)
  case Nil
  then show ?case by (simp add: dict_merge_def)
next
  case (Cons kv b)
  obtain k v where kv: "kv = (k, v)" by (cases kv)
  from Cons.prems kv have nk: "map_of b k = None" and db: "distinct (map fst b)"
    by (auto simp: map_of_eq_None_iff)
  have "map_of (dict_merge a (kv # b)) = map_of (dict_merge (AList.update k v a) b)"
    by (simp add: dict_merge_def kv)
  also have "\<dots> = map_of (AList.update k v a) ++ map_of b"
    using Cons.IH db by simp
  also have "\<dots> = map_of a ++ map_of (kv # b)"
    using nk by (auto simp: kv update_conv' map_add_def fun_eq_iff split: option.splits)
  finally show ?case .
qed

text \<open>The two copy methods, with the intermediate stores composed.\<close>

lemma free_copy_unfold:
  "get_perturbation_free_copy h self new_name =
     (length h,
      h @ [(h ! self)\<lparr>d_perturbation := Some [],
                      d_name := (case new_name of None \<Rightarrow> d_name (h ! self) | Some s \<Rightarrow> s)\<rparr>])"
  by (simp add: get_perturbation_free_copy_def Let_def)

lemma perturbed_copy_unfold:
  "get_perturbed_copy h self ps new_name =
     (case validate_perturbations (dict_merge (d_perturbations (h ! self)) ps) of
        Inl e \<Rightarrow>
          (Inl e, h @ [(h ! self)\<lparr>d_perturbation := Some [],
                      d_name := (case new_name of None \<Rightarrow> d_name (h ! self) | Some s \<Rightarrow> s)\<rparr>])
      | Inr u \<Rightarrow>
          (Inr (length h),
           h @ [(h ! self)\<lparr>d_perturbation := Some [],
                      d_name := (case new_name of None \<Rightarrow> d_name (h ! self) | Some s \<Rightarrow> s),
                      d_perturbations := dict_merge (d_perturbations (h ! self)) ps\<rparr>]))"
  by (simp add: get_perturbed_copy_def free_copy_unfold split: sum.splits)

lemma known_only_filter:
  "list_all (\<lambda>(k, v). has_flag v) stored \<Longrightarrow>
   known_only stored = Inr (filter (\<lambda>(k, v). known_flag v) stored)"
proof (induction stored)
  case Nil
  then show ?case by simp
next
  case (Cons kv stored)
  obtain k v where kv: "kv = (k, v)" by (cases kv)
  from Cons.prems kv obtain b where b: "getitem1 v = Inr b"
    by (auto simp: has_flag_def split: sum.splits)
  from Cons have "known_only stored = Inr (filter (\<lambda>(k, v). known_flag v) stored)" by simp
  then show ?case using b by (simp add: kv bind_err_def known_flag_def)
qed

lemma compute_actual_locations_frame:
  "compute_actual_locations (self\<lparr>d_perturbations := pd\<rparr>) = compute_actual_locations self"
  by (auto simp: fun_eq_iff compute_actual_locations_def ndim_def bind_err_def
        split: sum.splits)

text \<open>The location step of \<^verbatim>\<open>steering_matrix\<close> is \<^verbatim>\<open>actual_element_locations\<close> of the
  design whose perturbations are the filtered ones.\<close>

lemma steering_locations_step:
  "(if py_in ''location_errors'' pd
        then bind_err (dict_get pd ''location_errors'') (\<lambda>v.
             bind_err (getitem0 v) (\<lambda>location_errors.
               compute_actual_locations self location_errors))
        else Inr (d_locations self)) = actual_element_locations (self\<lparr>d_perturbations := pd\<rparr>)"
  by (simp add: actual_element_locations_def compute_actual_locations_frame
        element_locations_def)

lemma stage_lookup:
  "entry_params pd k = map_option Inr g \<Longrightarrow>
   (if py_in k pd
    then bind_err (dict_get pd k) (\<lambda>v. bind_err (getitem0 v) f)
    else Inr dflt) = (case g of None \<Rightarrow> Inr dflt | Some p \<Rightarrow> f p)"
  by (cases g; cases "map_of pd k") (auto simp: entry_params_def py_in_def dict_get_def bind_err_def)

lemma GridBasedArrayDesign_matrix:
  "length (shape a) = 2 \<Longrightarrow> shape a ! 1 \<le> 3 \<Longrightarrow> validate_perturbations ps = Inr () \<Longrightarrow>
   GridBasedArrayDesign a d0 nm ps =
     Inr \<lparr>d_locations = times_scalar a d0, d_name = nm,
          d_perturbations = ps, d_perturbation = None,
          d_element_indices = a, d_d0 = d0\<rparr>"
  by (simp add: GridBasedArrayDesign_def ArrayDesign_def bind_err_simps
        times_scalar_def ndarray_ndim_def shape_at_def)



section \<open>Construction and validation\<close>

text \<open>
  What a successful construction guarantees: the stored locations have two axes and at
  most three columns, \<open>ndim\<close> is the column count, and the perturbations passed the
  validation. More than two axes, or more than three columns, are rejected, and a vector
  becomes a column.
\<close>

lemma ArrayDesign_Inr_shape:
  assumes "ArrayDesign locations name perturbations = Inr self"
  shows "length (shape (d_locations self)) = 2 \<and> shape (d_locations self) ! 1 \<le> 3 \<and>
         ndim self = Inr (shape (d_locations self) ! 1) \<and>
         validate_perturbations (d_perturbations self) = Inr ()"
  using assms
  by (auto simp: ArrayDesign_def ndarray_ndim_def shape_at_def reshape_column_def ndim_def
        split: if_splits sum.splits)

lemma ArrayDesign_rejects:
  "ndarray_ndim locations > 2 \<Longrightarrow>
     ArrayDesign locations name perturbations =
       Inl (ValueError ''Expecting an 1D vector or a 2D matrix.'')"
  "ndarray_ndim locations = 2 \<Longrightarrow> shape locations ! 1 > 3 \<Longrightarrow>
     ArrayDesign locations name perturbations =
       Inl (ValueError ''Array can only be 1D, 2D or 3D.'')"
  by (simp_all add: ArrayDesign_def ndarray_ndim_def shape_at_def)

lemma ArrayDesign_vector:
  "ndarray_ndim locations = 1 \<Longrightarrow> validate_perturbations perturbations = Inr () \<Longrightarrow>
     ArrayDesign locations name perturbations =
       Inr \<lparr>d_locations = reshape_column locations, d_name = name,
            d_perturbations = perturbations, d_perturbation = None\<rparr>"
  by (simp add: ArrayDesign_def)

text \<open>
  C9. Construction is to fail when the locations have more than two axes or more than
  three columns, a vector is to become a column with \<open>ndim = 1\<close>, and every constructed
  design is to store a two-axis matrix whose column count is 1, 2 or 3 and equals \<open>ndim\<close>.
  The constructor only tests \<^verbatim>\<open>shape[1] > 3\<close>: a matrix of shape \<open>(2, 0)\<close> is accepted, and
  the design built from it has \<open>ndim = 0\<close>.
\<close>

theorem ArrayDesign_zero_columns:
  "ArrayDesign ex_zero_columns ''flat'' [] =
     Inr \<lparr>d_locations = ex_zero_columns, d_name = ''flat'', d_perturbations = [],
          d_perturbation = None\<rparr> \<and>
   shape ex_zero_columns = [2, 0] \<and>
   ndim \<lparr>d_locations = ex_zero_columns, d_name = ''flat'', d_perturbations = [],
         d_perturbation = None\<rparr> = Inr 0"
  by (simp add: ArrayDesign_def ndim_def ndarray_ndim_def shape_at_def ex_zero_columns_def)

text \<open>A tuple passes the validation whatever its length: the length is only looked at
  for values that are not tuples.\<close>

lemma validate_perturbations_tuple:
  "k \<in> set PERTURBATION_TYPES \<Longrightarrow> validate_perturbations [(k, PTuple xs)] = Inr ()"
  by simp

lemma validate_perturbations_unknown_kind:
  "k \<notin> set PERTURBATION_TYPES \<Longrightarrow>
   validate_perturbations ((k, v) # rest) =
     Inl (ValueError (''Unsupported perturbation type \"'' @ k @ ''\".''))"
  by simp

text \<open>
  C8. Construction is to fail when a perturbation key is not one of the four kinds or
  when a value is not a two-element (parameters, bool) structure, at construction and at
  every merge. The test on the value is \<^verbatim>\<open>not isinstance(v, tuple) and len(v) != 2\<close>: the
  three-element tuple \<^verbatim>\<open>(gain, True, extra)\<close> under \<^verbatim>\<open>gain_errors\<close> passes the validation
  and the design is constructed.
\<close>

theorem ArrayDesign_three_tuple:
  "items_len (Items2 ex_gain True 1) = 3 \<and>
   validate_perturbations ex_three_tuple = Inr () \<and>
   ArrayDesign ex_locations ''three'' ex_three_tuple =
     Inr \<lparr>d_locations = ex_locations, d_name = ''three'',
          d_perturbations = ex_three_tuple, d_perturbation = None\<rparr>"
  by (simp add: ArrayDesign_def ndarray_ndim_def shape_at_def ex_locations_def
        ex_three_tuple_def PERTURBATION_TYPES_def)

section \<open>Actual element locations\<close>



section \<open>Copies\<close>

text \<open>
  What \<open>get_perturbation_free_copy\<close> does on any receiver: the copy is a new object
  with the receiver's locations and perturbations and with the requested name, the
  receiver's when none is given; the receiver is unchanged.
\<close>

lemma free_copy_general:
  assumes "self < length h"
    and "get_perturbation_free_copy h self new_name = (design, h')"
  shows "d_perturbations (h' ! design) = d_perturbations (h ! self) \<and>
         is_perturbed (h' ! design) = is_perturbed (h ! self) \<and>
         d_name (h' ! design) = (case new_name of None \<Rightarrow> d_name (h ! self) | Some s \<Rightarrow> s) \<and>
         d_locations (h' ! design) = d_locations (h ! self) \<and>
         design = length h \<and> h' ! self = h ! self"
  using assms by (auto simp: free_copy_unfold is_perturbed_def nth_append)

text \<open>
  C3. \<open>get_perturbation_free_copy\<close> is to return a new design equal to the receiver but
  with an empty perturbation set, so that \<open>is_perturbed\<close> of the copy is always False, the
  name defaulting to the receiver's. The method assigns \<^verbatim>\<open>design._perturbation\<close>, not
  \<^verbatim>\<open>design._perturbations\<close>: the copy of a design with three perturbations keeps all
  three, and its \<open>is_perturbed\<close> is True.
\<close>

theorem free_copy_keeps_perturbations:
  "get_perturbation_free_copy [ex_design] 0 None =
     (1, [ex_design, ex_design\<lparr>d_perturbation := Some []\<rparr>]) \<and>
   is_perturbed (ex_design\<lparr>d_perturbation := Some []\<rparr>) \<and>
   d_perturbations (ex_design\<lparr>d_perturbation := Some []\<rparr>) = d_perturbations ex_design"
  by (simp add: free_copy_unfold is_perturbed_def ex_design_def)

text \<open>
  C6. For a receiver at address \<open>self\<close> and a dict \<open>ps\<close> (a dict has distinct keys), a
  successful \<open>get_perturbed_copy\<close> returns a new object whose perturbation mapping is the
  receiver's overridden and extended by \<open>ps\<close>, the entries of \<open>ps\<close> winning; the merged
  set has passed the validation of the constructor; the name is \<open>new_name\<close>, or the
  receiver's when omitted; the locations are the receiver's. The receiver is not mutated:
  every object allocated before the call, the receiver among them, is as it was.
\<close>

theorem get_perturbed_copy_frame:
  assumes "self < length h" and "distinct (map fst ps)"
    and "get_perturbed_copy h self ps new_name = (Inr design, h')"
  shows "map_of (d_perturbations (h' ! design)) =
           map_of (d_perturbations (h ! self)) ++ map_of ps \<and>
         validate_perturbations (d_perturbations (h' ! design)) = Inr () \<and>
         d_name (h' ! design) = (case new_name of None \<Rightarrow> d_name (h ! self) | Some s \<Rightarrow> s) \<and>
         d_locations (h' ! design) = d_locations (h ! self) \<and>
         design = length h \<and> length h' = Suc (length h) \<and> take (length h) h' = h \<and>
         h' ! self = h ! self \<and>
         d_perturbations (h' ! self) = d_perturbations (h ! self)"
  using assms
  by (auto simp: perturbed_copy_unfold dict_merge_map_of nth_append split: sum.splits)

text \<open>
  The example design, holding gain, phase and coupling entries, updated with new phase
  errors and with location errors: the copy holds four entries, the phase entry being the
  new one, and the receiver at address 0 is unchanged.
\<close>

theorem get_perturbed_copy_frame_witness:
  "(0::nat) < length [ex_design] \<and> distinct (map fst ex_update) \<and>
   fst (get_perturbed_copy [ex_design] 0 ex_update (Some ''updated'')) = Inr 1 \<and>
   d_perturbations (snd (get_perturbed_copy [ex_design] 0 ex_update (Some ''updated'')) ! 1) =
     [(''gain_errors'', PTuple (Items2 ex_gain True 0)),
      (''phase_errors'', PTuple (Items2 ex_gain True 0)),
      (''mutual_coupling'', PTuple (Items2 ex_coupling True 0)),
      (''location_errors'', PTuple (Items2 ex_location_errors False 0))] \<and>
   map_of (d_perturbations
             (snd (get_perturbed_copy [ex_design] 0 ex_update (Some ''updated'')) ! 1)) =
     map_of (d_perturbations ex_design) ++ map_of ex_update \<and>
   d_name (snd (get_perturbed_copy [ex_design] 0 ex_update (Some ''updated'')) ! 1) =
     ''updated'' \<and>
   snd (get_perturbed_copy [ex_design] 0 ex_update (Some ''updated'')) ! 0 = ex_design"
proof -
  let ?r = "get_perturbed_copy [ex_design] 0 ex_update (Some ''updated'')"
  have a: "(0::nat) < length [ex_design]" by simp
  have b: "distinct (map fst ex_update)" by (simp add: ex_update_def)
  have c: "?r = (Inr 1, snd ?r)"
    by (simp add: perturbed_copy_unfold dict_merge_def ex_design_def ex_update_def
          PERTURBATION_TYPES_def)
  have d: "d_perturbations (snd ?r ! 1) =
     [(''gain_errors'', PTuple (Items2 ex_gain True 0)),
      (''phase_errors'', PTuple (Items2 ex_gain True 0)),
      (''mutual_coupling'', PTuple (Items2 ex_coupling True 0)),
      (''location_errors'', PTuple (Items2 ex_location_errors False 0))]"
    by (simp add: perturbed_copy_unfold dict_merge_def ex_design_def ex_update_def
          PERTURBATION_TYPES_def)
  have f: "fst ?r = Inr 1" by (subst c) simp
  from get_perturbed_copy_frame [OF a b c]
  have m: "map_of (d_perturbations (snd ?r ! 1)) =
          map_of (d_perturbations ex_design) ++ map_of ex_update"
    and n: "d_name (snd ?r ! 1) = ''updated''"
    and z: "snd ?r ! 0 = ex_design"
    by simp_all
  show ?thesis using a b f d m n z by blast
qed

text \<open>
  C10. When \<open>get_perturbed_copy\<close> raises, which it does exactly when the merged set fails
  the validation, the receiver is as before the call: its perturbations, name and
  locations are unchanged, as is every object allocated before the call. No design is
  returned, and the copy that was allocated still holds the receiver's perturbations,
  not the merged ones.
\<close>

theorem get_perturbed_copy_atomic:
  assumes "self < length h"
    and "get_perturbed_copy h self ps new_name = (Inl e, h')"
  shows "validate_perturbations (dict_merge (d_perturbations (h ! self)) ps) = Inl e \<and>
         h' ! self = h ! self \<and> take (length h) h' = h \<and>
         d_perturbations (h' ! self) = d_perturbations (h ! self) \<and>
         d_name (h' ! self) = d_name (h ! self) \<and>
         d_locations (h' ! self) = d_locations (h ! self) \<and>
         d_perturbations (h' ! length h) = d_perturbations (h ! self)"
  using assms
  by (auto simp: perturbed_copy_unfold nth_append split: sum.splits)

text \<open>The example design updated with an entry of the unknown kind \<^verbatim>\<open>drift\<close>: the call
  raises and the receiver at address 0 is unchanged.\<close>

theorem get_perturbed_copy_atomic_witness:
  "(0::nat) < length [ex_design] \<and>
   fst (get_perturbed_copy [ex_design] 0 ex_unknown_kind None) =
     Inl (ValueError ''Unsupported perturbation type \"drift\".'') \<and>
   snd (get_perturbed_copy [ex_design] 0 ex_unknown_kind None) ! 0 = ex_design \<and>
   take 1 (snd (get_perturbed_copy [ex_design] 0 ex_unknown_kind None)) = [ex_design]"
proof -
  let ?r = "get_perturbed_copy [ex_design] 0 ex_unknown_kind None"
  have a: "(0::nat) < length [ex_design]" by simp
  have c: "?r = (Inl (ValueError ''Unsupported perturbation type \"drift\".''), snd ?r)"
    by (simp add: perturbed_copy_unfold dict_merge_def ex_design_def ex_unknown_kind_def
          PERTURBATION_TYPES_def)
  have f: "fst ?r = Inl (ValueError ''Unsupported perturbation type \"drift\".'')"
    by (subst c) simp
  from get_perturbed_copy_atomic [OF a c]
  have z: "snd ?r ! 0 = ex_design" and t: "take 1 (snd ?r) = [ex_design]"
    by simp_all
  show ?thesis using a f z t by blast
qed

section \<open>The steering matrix: filter and composition\<close>

text \<open>
  C2. The \<^verbatim>\<open>perturbations\<close> argument of \<open>steering_matrix\<close> selects the filtered view:
  the call computes what \<^verbatim>\<open>'all'\<close> computes on the design restricted to the filtered set,
  where \<^verbatim>\<open>'all'\<close> keeps every stored perturbation, \<^verbatim>\<open>'known'\<close> keeps exactly the entries
  whose known-flag is True (every stored value having a flag), and \<^verbatim>\<open>'none'\<close> keeps none,
  so that the result is the base matrix (and base derivatives) at the nominal locations
  whatever is stored. Any other value makes the call fail with the ValueError of the
  filter.
\<close>

theorem steering_matrix_filter:
  fixes self :: "('e::plus, 'm) array_design_scheme"
  shows
  "steering_matrix np phase_delay_matrix self wavelength cd mode =
     bind_err (filter_perturbations (d_perturbations self) mode) (\<lambda>pd.
       steering_matrix np phase_delay_matrix (self\<lparr>d_perturbations := pd\<rparr>) wavelength cd ''all'') \<and>
   filter_perturbations (d_perturbations self) ''all'' = Inr (d_perturbations self) \<and>
   (list_all (\<lambda>(k, v). has_flag v) (d_perturbations self) \<longrightarrow>
      filter_perturbations (d_perturbations self) ''known'' =
        Inr (filter (\<lambda>(k, v). known_flag v) (d_perturbations self))) \<and>
   filter_perturbations (d_perturbations self) ''none'' = Inr [] \<and>
   (mode \<noteq> ''all'' \<and> mode \<noteq> ''known'' \<and> mode \<noteq> ''none'' \<longrightarrow>
      steering_matrix np phase_delay_matrix self wavelength cd mode =
        Inl (ValueError ''Perturbation can only be \"all\", \"known\", or \"none\".'')) \<and>
   steering_matrix np phase_delay_matrix self wavelength cd ''none'' =
     Inr (if cd
          then WithDerivatives
                 (exp_1j np (fst (phase_delay_matrix (d_locations self) wavelength cd)) #
                  map (\<lambda>X. multiply np
                             (exp_1j np (fst (phase_delay_matrix (d_locations self) wavelength cd)))
                             (times_1j np X))
                      (snd (phase_delay_matrix (d_locations self) wavelength cd)))
          else Matrix (exp_1j np (fst (phase_delay_matrix (d_locations self) wavelength cd))))"
proof (intro conjI impI)
  show "steering_matrix np phase_delay_matrix self wavelength cd mode =
     bind_err (filter_perturbations (d_perturbations self) mode) (\<lambda>pd.
       steering_matrix np phase_delay_matrix (self\<lparr>d_perturbations := pd\<rparr>) wavelength cd ''all'')"
    by (cases "filter_perturbations (d_perturbations self) mode")
       (simp_all add: steering_matrix_def bind_err_simps filter_perturbations_def
          compute_actual_locations_frame)
  show "filter_perturbations (d_perturbations self) ''all'' = Inr (d_perturbations self)"
    by (simp add: filter_perturbations_def)
  show "filter_perturbations (d_perturbations self) ''none'' = Inr []"
    by (simp add: filter_perturbations_def)
  show "filter_perturbations (d_perturbations self) ''known'' =
        Inr (filter (\<lambda>(k, v). known_flag v) (d_perturbations self))"
    if "list_all (\<lambda>(k, v). has_flag v) (d_perturbations self)"
    using that by (simp add: filter_perturbations_def known_only_filter)
  show "steering_matrix np phase_delay_matrix self wavelength cd mode =
        Inl (ValueError ''Perturbation can only be \"all\", \"known\", or \"none\".'')"
    if "mode \<noteq> ''all'' \<and> mode \<noteq> ''known'' \<and> mode \<noteq> ''none''"
    using that by (simp add: steering_matrix_def filter_perturbations_def bind_err_def)
  show "steering_matrix np phase_delay_matrix self wavelength cd ''none'' =
     Inr (if cd
          then WithDerivatives
                 (exp_1j np (fst (phase_delay_matrix (d_locations self) wavelength cd)) #
                  map (\<lambda>X. multiply np
                             (exp_1j np (fst (phase_delay_matrix (d_locations self) wavelength cd)))
                             (times_1j np X))
                      (snd (phase_delay_matrix (d_locations self) wavelength cd)))
          else Matrix (exp_1j np (fst (phase_delay_matrix (d_locations self) wavelength cd))))"
    by (simp add: steering_matrix_def filter_perturbations_def bind_err_def py_in_def Let_def)
qed

text \<open>
  The example design stores a known gain entry, an unknown phase entry and a known
  coupling entry: \<^verbatim>\<open>'known'\<close> keeps the gain and the coupling, and the keyword \<^verbatim>\<open>'some'\<close>
  is refused.
\<close>

theorem steering_matrix_filter_witness:
  "list_all (\<lambda>(k, v). has_flag v) (d_perturbations ex_design) \<and>
   filter_perturbations (d_perturbations ex_design) ''known'' =
     Inr [(''gain_errors'', PTuple (Items2 ex_gain True 0)),
          (''mutual_coupling'', PTuple (Items2 ex_coupling True 0))] \<and>
   ''some'' \<noteq> ''all'' \<and> ''some'' \<noteq> ''known'' \<and> ''some'' \<noteq> ''none'' \<and>
   steering_matrix symbolic_numpy ex_sources ex_design () False ''some'' =
     Inl (ValueError ''Perturbation can only be \"all\", \"known\", or \"none\".'')"
proof -
  have h: "list_all (\<lambda>(k, v). has_flag v) (d_perturbations ex_design)"
    by (simp add: ex_design_def has_flag_def)
  have m: "''some'' \<noteq> ''all'' \<and> ''some'' \<noteq> ''known'' \<and> ''some'' \<noteq> ''none''"
    by simp
  from steering_matrix_filter [of symbolic_numpy ex_sources ex_design "()" False "''some''"] h m
  have "filter_perturbations (d_perturbations ex_design) ''known'' =
          Inr (filter (\<lambda>(k, v). known_flag v) (d_perturbations ex_design))"
    and "steering_matrix symbolic_numpy ex_sources ex_design () False ''some'' =
     Inl (ValueError ''Perturbation can only be \"all\", \"known\", or \"none\".'')"
    by blast+
  then show ?thesis using h m by (simp add: ex_design_def known_flag_def)
qed

text \<open>
  C1. Let \<open>pd\<close> be the filtered perturbation set, \<open>L\<close> the effective element locations
  (those of the design restricted to \<open>pd\<close>), \<open>T\<close> and \<open>Ts\<close> the phase delays and
  derivative terms the sources collaborator returns at \<open>L\<close>, and \<open>g\<close>, \<open>ph\<close>, \<open>c\<close> the
  parameters of the gain, phase and coupling entries of \<open>pd\<close> (\<open>None\<close> when absent). Then
  \<open>steering_matrix\<close> returns the base matrix \<open>A = exp(i * T)\<close> scaled by \<open>1 + g\<close>, then by
  \<open>exp(i * ph)\<close>, then left-multiplied by \<open>c\<close>, coupling last. With derivatives, each
  \<open>DA_k = A * (i * Ts_k)\<close>, built from the base \<open>A\<close>, goes through the same three steps and
  the result is the tuple \<open>(A, DA_1, DA_2, ...)\<close>.
\<close>

theorem steering_matrix_order:
  fixes self :: "('e::plus, 'm) array_design_scheme"
  assumes flt: "filter_perturbations (d_perturbations self) mode = Inr pd"
    and loc: "actual_element_locations (self\<lparr>d_perturbations := pd\<rparr>) = Inr L"
    and pdm: "phase_delay_matrix L wavelength cd = (T, Ts)"
    and g: "entry_params pd ''gain_errors'' = map_option Inr g"
    and ph: "entry_params pd ''phase_errors'' = map_option Inr ph"
    and c: "entry_params pd ''mutual_coupling'' = map_option Inr c"
  shows "steering_matrix np phase_delay_matrix self wavelength cd mode =
           Inr (if cd
                then WithDerivatives
                       (map (\<lambda>X. apply_coupling np c (apply_phase np ph (apply_gain np g X)))
                          (exp_1j np T #
                           map (\<lambda>X. multiply np (exp_1j np T) (times_1j np X)) Ts))
                else Matrix (apply_coupling np c (apply_phase np ph (apply_gain np g
                       (exp_1j np T)))))"
  unfolding steering_matrix_def
  using pdm
  by (cases cd)
     (simp_all add: flt bind_err_simps steering_locations_step loc Let_def
        stage_lookup [OF g] stage_lookup [OF ph] stage_lookup [OF c]
        apply_gain_def apply_phase_def apply_coupling_def split: option.splits)

text \<open>
  The example design under the symbolic numpy operations, with derivatives: the
  expressions returned show the gain factor innermost, the phase factor around it and the
  coupling product outermost, for the matrix and for its derivative.
\<close>

theorem steering_matrix_order_witness:
  "filter_perturbations (d_perturbations ex_design) ''all'' = Inr (d_perturbations ex_design) \<and>
   actual_element_locations (ex_design\<lparr>d_perturbations := d_perturbations ex_design\<rparr>) =
     Inr ex_locations \<and>
   ex_sources ex_locations () True = (ex_locations, [ex_locations]) \<and>
   entry_params (d_perturbations ex_design) ''gain_errors'' = map_option Inr (Some ex_gain) \<and>
   entry_params (d_perturbations ex_design) ''phase_errors'' = map_option Inr (Some ex_phase) \<and>
   entry_params (d_perturbations ex_design) ''mutual_coupling'' =
     map_option Inr (Some ex_coupling) \<and>
   steering_matrix symbolic_numpy ex_sources ex_design () True ''all'' =
     Inr (WithDerivatives
       [MatMul ex_coupling (Mul (Exp1j ex_phase) (Mul (OnePlus ex_gain) (Exp1j ex_locations))),
        MatMul ex_coupling (Mul (Exp1j ex_phase) (Mul (OnePlus ex_gain)
          (Mul (Exp1j ex_locations) (Times1j ex_locations))))])"
proof -
  have flt: "filter_perturbations (d_perturbations ex_design) ''all'' =
      Inr (d_perturbations ex_design)"
    by (simp add: filter_perturbations_def)
  have loc: "actual_element_locations (ex_design\<lparr>d_perturbations := d_perturbations ex_design\<rparr>) =
      Inr ex_locations"
    by (simp add: actual_element_locations_def ex_design_def py_in_def element_locations_def)
  have pdm: "ex_sources ex_locations () True = (ex_locations, [ex_locations])"
    by (simp add: ex_sources_def)
  have g: "entry_params (d_perturbations ex_design) ''gain_errors'' =
      map_option Inr (Some ex_gain)"
    by (simp add: entry_params_def ex_design_def)
  have ph: "entry_params (d_perturbations ex_design) ''phase_errors'' =
      map_option Inr (Some ex_phase)"
    by (simp add: entry_params_def ex_design_def)
  have c: "entry_params (d_perturbations ex_design) ''mutual_coupling'' =
      map_option Inr (Some ex_coupling)"
    by (simp add: entry_params_def ex_design_def)
  have "steering_matrix symbolic_numpy ex_sources ex_design () True ''all'' =
     Inr (WithDerivatives
       [MatMul ex_coupling (Mul (Exp1j ex_phase) (Mul (OnePlus ex_gain) (Exp1j ex_locations))),
        MatMul ex_coupling (Mul (Exp1j ex_phase) (Mul (OnePlus ex_gain)
          (Mul (Exp1j ex_locations) (Times1j ex_locations))))])"
    using steering_matrix_order [where self = ex_design and mode = "''all''"
        and pd = "d_perturbations ex_design" and L = ex_locations
        and phase_delay_matrix = ex_sources and wavelength = "()" and cd = True
        and T = ex_locations and Ts = "[ex_locations]" and g = "Some ex_gain"
        and ph = "Some ex_phase" and c = "Some ex_coupling" and np = symbolic_numpy,
        OF flt loc pdm g ph c]
    by (simp add: apply_gain_def apply_phase_def apply_coupling_def symbolic_numpy_def)
  with flt loc pdm g ph c show ?thesis by blast
qed

section \<open>The geometry catalog\<close>

lemma MRLA_PRESETS_length: "length MRLA_PRESETS = 20"
  by (simp add: MRLA_PRESETS_def)

text \<open>
  For \<open>n\<close> from 1 to 19 the constructor succeeds with the indices of row \<open>n\<close> of the table
  as a column and the locations \<open>indices * d0\<close>; below 1 and above 20 it fails.
\<close>

lemma MinimumRedundancyLinearArray_in_range:
  assumes "1 \<le> n" "n \<le> 19" "validate_perturbations ps = Inr ()"
  shows "\<exists>g. MinimumRedundancyLinearArray n d0 name ps = Inr g \<and>
             data (element_indices g) = MRLA_PRESETS ! nat (n - 1) \<and>
             d_locations g = times_scalar (element_indices g) d0"
  using assms
  by (simp add: MinimumRedundancyLinearArray_def MRLA_PRESETS_length
        GridBasedArrayDesign_matrix newaxis_column_def array1_def element_indices_def)

lemma MinimumRedundancyLinearArray_out_of_range:
  "n < 1 \<or> 20 < n \<Longrightarrow>
   MinimumRedundancyLinearArray n d0 name ps =
     Inl (ValueError ''The MRLA presets only support up to 20 elements.'')"
  by (auto simp: MinimumRedundancyLinearArray_def MRLA_PRESETS_length)

lemma MinimumRedundancyLinearArray_3:
  "MinimumRedundancyLinearArray 3 (1::real) None [] =
   Inr \<lparr>d_locations = \<lparr>shape = [3, 1], data = [0, 1, 3]\<rparr>, d_name = ''MRLA 3'',
        d_perturbations = [], d_perturbation = None,
        d_element_indices = \<lparr>shape = [3, 1], data = [0, 1, 3]\<rparr>, d_d0 = 1\<rparr>"
  by (simp add: MinimumRedundancyLinearArray_def MRLA_PRESETS_def GridBasedArrayDesign_def
       ArrayDesign_def bind_err_def newaxis_column_def array1_def times_scalar_def
       ndarray_ndim_def shape_at_def str_int_def str_nat.simps digit_char_def)

text \<open>
  C5. \<open>MinimumRedundancyLinearArray n d0\<close> is to succeed for every \<open>n\<close> from 1 to 20,
  with the indices of the table's row \<open>n\<close>, and to fail outside that range. The guard is
  \<^verbatim>\<open>n >= len(_MRLA_PRESETS)\<close> and the table has 20 rows: \<open>n = 20\<close> is refused, whatever the
  other arguments, and the last row of the table is never used.
\<close>

theorem MinimumRedundancyLinearArray_20:
  "MinimumRedundancyLinearArray 20 d0 name ps =
     Inl (ValueError ''The MRLA presets only support up to 20 elements.'')"
  by (simp add: MinimumRedundancyLinearArray_def MRLA_PRESETS_length)








end
